theory Spec2Isabelle
  imports Main "HOL-Library.Word"
begin

section \<open>Context currency of the OpenGL wrapper (src/src/context.cpp)\<close>

text \<open>
  The file keeps two process-wide registries: the static pointer
  \<^verbatim>\<open>MonoContext_impl::current_context\<close> and the static map
  \<^verbatim>\<open>MultiContext_impl::current_context\<close> from thread identities to instance pointers,
  the latter guarded by a recursive mutex. Both are fields of an explicit \<open>world\<close> that
  every method takes and returns. An instance is identified by its address: a method
  takes \<open>this\<close> and, where it reads them, the fields found there. A pointer is an
  \<open>addr option\<close>, \<open>None\<close> being \<^verbatim>\<open>nullptr\<close>. The identity of the
  calling thread (\<^verbatim>\<open>std::this_thread::get_id()\<close>) is an explicit argument.

  The hook \<^verbatim>\<open>Context_impl::on_made_not_current\<close> has an empty body, the mutex has no
  state that outlives a method, and the driver is external. To speak about them the world
  carries a trace of the effects a method performs, in program order: hook calls, writes
  to the registries, lock acquisitions and releases, and native driver calls.
\<close>

subsection \<open>Data\<close>

type_synonym addr = nat
type_synonym thread_id = nat
type_synonym GLenum = "32 word"
type_synonym GLbitfield = "32 word"

text \<open>
  Both \<^verbatim>\<open>throw\<close> statements of the file raise \<^verbatim>\<open>gl::exception\<close> with a message.
  \<open>driver_error\<close> is what the checking wrapper \<^verbatim>\<open>GL_CALL\<close> raises (see below).
\<close>

datatype exception = gl_exception string | driver_error GLenum

datatype getter = glGetIntegerv | glGetInteger64v | glGetBooleanv | glGetDoublev | glGetFloatv

datatype event =
    Hook addr  \<comment> \<open>\<^verbatim>\<open>on_made_not_current()\<close> called on the instance at this address\<close>
  | Mono_store "addr option"  \<comment> \<open>assignment to \<^verbatim>\<open>MonoContext_impl::current_context\<close>\<close>
  | Multi_store thread_id "addr option"  \<comment> \<open>assignment to a slot of the map\<close>
  | Multi_erase thread_id  \<comment> \<open>\<^verbatim>\<open>current_context.erase(it)\<close>\<close>
  | Lock thread_id  \<comment> \<open>\<^verbatim>\<open>current_context_lock\<close> acquired by this thread\<close>
  | Unlock thread_id
  | Call_glClear GLbitfield
  | Call_glGet getter GLenum

text \<open>
  The dynamic type of a \<^verbatim>\<open>Context_impl\<close>: \<^verbatim>\<open>MonoContext_impl\<close> or
  \<^verbatim>\<open>MultiContext_impl\<close>, the latter with its field \<^verbatim>\<open>_thread_id\<close>. The back reference
  \<^verbatim>\<open>_context\<close> is never read in the file and is left out.
\<close>

datatype impl_kind = Mono | Multi thread_id

record Context_impl =
  clear_mask :: GLbitfield
  handle :: "addr option"
  kind :: impl_kind

record world =
  Mono_current_context :: "addr option"
  Multi_current_context :: "thread_id \<rightharpoonup> addr option"
  objs :: "addr \<rightharpoonup> Context_impl"
  trace :: "event list"

text \<open>Process start: both registries empty (lines 101-104), no instance, nothing done.\<close>

definition init_world :: world where
  "init_world = \<lparr>Mono_current_context = None, Multi_current_context = Map.empty,
     objs = Map.empty, trace = []\<rparr>"

definition emit :: "event \<Rightarrow> world \<Rightarrow> world" where
  "emit e w = w\<lparr>trace := trace w @ [e]\<rparr>"

text \<open>\<^verbatim>\<open>void Context_impl::on_made_not_current() {}\<close>: only the call itself is recorded.\<close>

definition on_made_not_current :: "addr \<Rightarrow> world \<Rightarrow> world" where
  "on_made_not_current this w = emit (Hook this) w"

subsection \<open>The single-owner variant\<close>

text \<open>
  \<^verbatim>\<open>
  void MonoContext_impl::make_current() {
    if (current_context && current_context != this) {
      current_context->on_made_not_current();
    }
    current_context = this;
  }
  \<close>
\<close>

definition MonoContext_impl_make_current :: "addr \<Rightarrow> world \<Rightarrow> (exception + unit) \<times> world" where
  "MonoContext_impl_make_current this w =
     (let w1 = (case Mono_current_context w of
                  None \<Rightarrow> w
                | Some cur \<Rightarrow> if cur \<noteq> this then on_made_not_current cur w else w)
      in (Inr (), emit (Mono_store (Some this)) (w1\<lparr>Mono_current_context := Some this\<rparr>)))"

text \<open>\<^verbatim>\<open>bool MonoContext_impl::current() const { return current_context == this; }\<close>\<close>

definition MonoContext_impl_current :: "addr \<Rightarrow> world \<Rightarrow> (exception + bool) \<times> world" where
  "MonoContext_impl_current this w = (Inr (Mono_current_context w = Some this), w)"

text \<open>
  \<^verbatim>\<open>
  MonoContext_impl::~MonoContext_impl() {
    if (current_context == this) {
      current_context = nullptr;
    }
  }
  \<close>
\<close>

definition MonoContext_impl_dtor :: "addr \<Rightarrow> world \<Rightarrow> world" where
  "MonoContext_impl_dtor this w =
     (if Mono_current_context w = Some this
      then emit (Mono_store None) (w\<lparr>Mono_current_context := None\<rparr>)
      else w)"

subsection \<open>The per-thread-owner variant\<close>

text \<open>
  \<^verbatim>\<open>
  void MultiContext_impl::make_current() {
    if (std::this_thread::get_id() != _thread_id) {
      throw gl::exception("attempt to make Context current on another thread");
    }
    {
      std::lock_guard<std::recursive_mutex> lock(current_context_lock);
      auto& i = current_context[_thread_id];
      if (i != this) {
        if (i) {
          i->on_made_not_current();
        }
        i = this;
      }
    }
    Context_impl::make_current();
  }
  \<close>
  \<^verbatim>\<open>operator[]\<close> inserts a null pointer for a missing key before \<open>i\<close> is read;
  \<^verbatim>\<open>Context_impl::make_current\<close> has an empty body.
\<close>

definition subscript :: "thread_id \<Rightarrow> world \<Rightarrow> addr option \<times> world" where
  "subscript tid w =
     (case Multi_current_context w tid of
        None \<Rightarrow> (None, w\<lparr>Multi_current_context := (Multi_current_context w)(tid \<mapsto> None)\<rparr>)
      | Some p \<Rightarrow> (p, w))"

definition MultiContext_impl_make_current ::
  "thread_id \<Rightarrow> addr \<Rightarrow> thread_id \<Rightarrow> world \<Rightarrow> (exception + unit) \<times> world" where
  "MultiContext_impl_make_current t this tid w =
     (if t \<noteq> tid
      then (Inl (gl_exception ''attempt to make Context current on another thread''), w)
      else
        let i = fst (subscript tid (emit (Lock t) w));
            w1 = snd (subscript tid (emit (Lock t) w));
            w2 = (if i \<noteq> Some this
                  then
                    let w' = (case i of None \<Rightarrow> w1 | Some cur \<Rightarrow> on_made_not_current cur w1)
                    in emit (Multi_store tid (Some this))
                         (w'\<lparr>Multi_current_context :=
                               (Multi_current_context w')(tid \<mapsto> Some this)\<rparr>)
                  else w1)
        in (Inr (), emit (Unlock t) w2))"

text \<open>
  \<^verbatim>\<open>
  bool MultiContext_impl::current() const {
    if (std::this_thread::get_id() != _thread_id) {
      return false;
    }
    std::lock_guard<std::recursive_mutex> lock(current_context_lock);
    auto it = current_context.find(_thread_id);
    return it != current_context.end() && it->second == this;
  }
  \<close>
\<close>

definition MultiContext_impl_current ::
  "thread_id \<Rightarrow> addr \<Rightarrow> thread_id \<Rightarrow> world \<Rightarrow> (exception + bool) \<times> world" where
  "MultiContext_impl_current t this tid w =
     (if t \<noteq> tid then (Inr False, w)
      else
        let w1 = emit (Lock t) w;
            r = (case Multi_current_context w1 tid of
                   None \<Rightarrow> False
                 | Some p \<Rightarrow> p = Some this)
        in (Inr r, emit (Unlock t) w1))"

text \<open>
  \<^verbatim>\<open>
  MultiContext_impl::~MultiContext_impl() {
    std::lock_guard<std::recursive_mutex> lock(current_context_lock);
    auto it = current_context.find(_thread_id);
    if (it != current_context.end() && it->second == this) {
      current_context.erase(it);
    }
  }
  \<close>
  The destructor does not compare the calling thread \<open>t\<close> with \<^verbatim>\<open>_thread_id\<close>.
\<close>

definition MultiContext_impl_dtor :: "thread_id \<Rightarrow> addr \<Rightarrow> thread_id \<Rightarrow> world \<Rightarrow> world" where
  "MultiContext_impl_dtor t this tid w =
     (let w1 = emit (Lock t) w;
          w2 = (case Multi_current_context w1 tid of
                  None \<Rightarrow> w1
                | Some p \<Rightarrow>
                    if p = Some this
                    then emit (Multi_erase tid)
                           (w1\<lparr>Multi_current_context := (Multi_current_context w1)(tid := None)\<rparr>)
                    else w1)
      in emit (Unlock t) w2)"

subsection \<open>The facade: virtual dispatch on the instance's dynamic type\<close>

text \<open>
  \<^verbatim>\<open>bool Context::current() const { return _impl->current(); }\<close> and
  \<^verbatim>\<open>void Context::make_current() { _impl->make_current(); }\<close>
\<close>

definition Context_make_current ::
  "thread_id \<Rightarrow> addr \<Rightarrow> Context_impl \<Rightarrow> world \<Rightarrow> (exception + unit) \<times> world" where
  "Context_make_current t this c w =
     (case kind c of
        Mono \<Rightarrow> MonoContext_impl_make_current this w
      | Multi tid \<Rightarrow> MultiContext_impl_make_current t this tid w)"

definition Context_current ::
  "thread_id \<Rightarrow> addr \<Rightarrow> Context_impl \<Rightarrow> world \<Rightarrow> (exception + bool) \<times> world" where
  "Context_current t this c w =
     (case kind c of
        Mono \<Rightarrow> MonoContext_impl_current this w
      | Multi tid \<Rightarrow> MultiContext_impl_current t this tid w)"

text \<open>
  Construction. \<^verbatim>\<open>Context_impl::Context_impl\<close> stores the handle; \<^verbatim>\<open>_clear_mask\<close> has the
  default member initialiser \<^verbatim>\<open>GL_COLOR_BUFFER_BIT\<close> (line 58). Both derived constructors
  call \<^verbatim>\<open>make_current()\<close>; the per-thread one first captures the constructing thread
  in \<^verbatim>\<open>_thread_id\<close>. The address \<open>this\<close> is chosen by the allocator.
\<close>

text \<open>
  Modelled from the spec: the "color-buffer bit". The OpenGL headers that define
  \<^verbatim>\<open>GL_COLOR_BUFFER_BIT\<close> are not part of the sources; the value is the one of the
  OpenGL registry.
\<close>

definition GL_COLOR_BUFFER_BIT :: GLbitfield where
  "GL_COLOR_BUFFER_BIT = 0x00004000"

definition Context_impl_ctor :: "addr option \<Rightarrow> impl_kind \<Rightarrow> Context_impl" where
  "Context_impl_ctor h k = \<lparr>clear_mask = GL_COLOR_BUFFER_BIT, handle = h, kind = k\<rparr>"

definition alloc :: "addr \<Rightarrow> Context_impl \<Rightarrow> world \<Rightarrow> world" where
  "alloc a c w = w\<lparr>objs := (objs w)(a \<mapsto> c)\<rparr>"

definition free :: "addr \<Rightarrow> world \<Rightarrow> world" where
  "free a w = w\<lparr>objs := (objs w)(a := None)\<rparr>"

definition MonoContext_impl_ctor ::
  "addr \<Rightarrow> addr option \<Rightarrow> world \<Rightarrow> (exception + Context_impl) \<times> world" where
  "MonoContext_impl_ctor this h w =
     (let c = Context_impl_ctor h Mono
      in case MonoContext_impl_make_current this (alloc this c w) of
           (Inl e, w1) \<Rightarrow> (Inl e, free this w1)
         | (Inr u, w1) \<Rightarrow> (Inr c, w1))"

definition MultiContext_impl_ctor ::
  "thread_id \<Rightarrow> addr \<Rightarrow> addr option \<Rightarrow> world \<Rightarrow> (exception + Context_impl) \<times> world" where
  "MultiContext_impl_ctor t this h w =
     (let c = Context_impl_ctor h (Multi t)
      in case MultiContext_impl_make_current t this t (alloc this c w) of
           (Inl e, w1) \<Rightarrow> (Inl e, free this w1)
         | (Inr u, w1) \<Rightarrow> (Inr c, w1))"

text \<open>
  \<^verbatim>\<open>Context::~Context() { delete _impl; }\<close>: the virtual destructor of the dynamic type
  runs on the calling thread \<open>t\<close>, then the empty \<^verbatim>\<open>Context_impl::~Context_impl\<close>, and
  the object is gone.
\<close>

definition delete_impl :: "thread_id \<Rightarrow> addr \<Rightarrow> Context_impl \<Rightarrow> world \<Rightarrow> world" where
  "delete_impl t this c w =
     free this
       (case kind c of
          Mono \<Rightarrow> MonoContext_impl_dtor this w
        | Multi tid \<Rightarrow> MultiContext_impl_dtor t this tid w)"

subsection \<open>The driver boundary\<close>

text \<open>
  Modelled from the spec: the macro \<^verbatim>\<open>GL_CALL\<close> is not part of the sources. The spec says
  that every call into the driver is checked by an external wrapper that converts driver
  error codes into failures, which propagate to the caller. A native call is therefore
  modelled by the error code the driver signals for it (\<open>GL_NO_ERROR\<close> for none) together
  with the value it leaves behind, and \<open>GL_CALL\<close> turns an error code into an exception.
\<close>

definition GL_NO_ERROR :: GLenum where
  "GL_NO_ERROR = 0"

definition GL_CALL :: "GLenum \<times> 'a \<Rightarrow> exception + 'a" where
  "GL_CALL r = (if fst r = GL_NO_ERROR then Inr (snd r) else Inl (driver_error (fst r)))"

text \<open>
  The driver is a parameter. Each query maps the parameter identifier to the error code
  the driver signals and to the values it stores at \<^verbatim>\<open>out\<close>, in order: one for a
  single-valued parameter, several for a vector-valued one (four floats for a color), none
  when it rejects the identifier. Floating point numbers are kept abstract (\<open>'f\<close>, \<open>'d\<close>).
\<close>

record ('f, 'd) driver =
  drv_glClear :: "GLbitfield \<Rightarrow> GLenum"
  drv_glGetIntegerv :: "GLenum \<Rightarrow> GLenum \<times> 32 word list"
  drv_glGetInteger64v :: "GLenum \<Rightarrow> GLenum \<times> 64 word list"
  drv_glGetBooleanv :: "GLenum \<Rightarrow> GLenum \<times> 8 word list"
  drv_glGetDoublev :: "GLenum \<Rightarrow> GLenum \<times> 'd list"
  drv_glGetFloatv :: "GLenum \<Rightarrow> GLenum \<times> 'f list"

text \<open>
  The object that \<^verbatim>\<open>out\<close> points to is a list of cells, one per \<^verbatim>\<open>T\<close>; a cell is
  \<open>None\<close> as long as the driver has not stored into it. The driver stores its values from
  the first cell on. When it stores more values than the object has cells it writes past
  the end of the caller's object: the behaviour is undefined and there is no result
  (\<open>None\<close>).
\<close>

definition store_at :: "'a option list \<Rightarrow> 'a list \<Rightarrow> 'a option list option" where
  "store_at cells xs =
     (if length cells < length xs then None
      else Some (map Some xs @ drop (length xs) cells))"

subsection \<open>Clearing\<close>

text \<open>
  \<^verbatim>\<open>void Context::clear() { GL_CALL(glClear(_impl->_clear_mask)); }\<close> and
  \<^verbatim>\<open>void Context::clear(GLbitfield mask) { GL_CALL(glClear(mask)); }\<close>
\<close>

definition Context_clear_mask ::
  "('f, 'd) driver \<Rightarrow> Context_impl \<Rightarrow> GLbitfield \<Rightarrow> world \<Rightarrow> (exception + unit) \<times> world" where
  "Context_clear_mask D c msk w = (GL_CALL (drv_glClear D msk, ()), emit (Call_glClear msk) w)"

definition Context_clear ::
  "('f, 'd) driver \<Rightarrow> Context_impl \<Rightarrow> world \<Rightarrow> (exception + unit) \<times> world" where
  "Context_clear D c w =
     (GL_CALL (drv_glClear D (clear_mask c), ()), emit (Call_glClear (clear_mask c)) w)"

subsection \<open>Reading parameters\<close>

text \<open>
  \<^verbatim>\<open>
  template<typename T, void(*GET)(GLenum, T*)>
  inline void get(Context const& context, GLenum param, T* out) {
    if (!context.current()) {
      throw gl::exception("can't get param from inactive context");
    }
    GL_CALL(GET(param, out));
  }
  \<close>
  The argument \<open>context\<close> is the instance: its address and its fields.
  The template argument \<^verbatim>\<open>GET\<close> is the pair of the entry point's name \<open>g\<close> (for the
  trace) and its behaviour \<open>GET\<close>. The argument \<open>cells\<close> is the object at \<^verbatim>\<open>out\<close>;
  the function returns it as the call left it.
\<close>

definition get_out ::
  "thread_id \<Rightarrow> addr \<times> Context_impl \<Rightarrow> getter \<Rightarrow> (GLenum \<Rightarrow> GLenum \<times> 'a list) \<Rightarrow> GLenum
     \<Rightarrow> 'a option list \<Rightarrow> world \<Rightarrow> ((exception + 'a option list) \<times> world) option" where
  "get_out t context g GET param cells w =
     (case Context_current t (fst context) (snd context) w of
        (Inl e, w1) \<Rightarrow> Some (Inl e, w1)
      | (Inr cur, w1) \<Rightarrow>
          if \<not> cur then Some (Inl (gl_exception ''can't get param from inactive context''), w1)
          else
            (case store_at cells (snd (GET param)) of
               None \<Rightarrow> None
             | Some cells' \<Rightarrow>
                 Some (GL_CALL (fst (GET param), cells'), emit (Call_glGet g param) w1)))"

text \<open>
  \<^verbatim>\<open>
  template<typename T, void(*GET)(GLenum, T*)>
  inline T get(Context const& context, GLenum param) { // get single
    T rv;
    get<T, GET>(context, param, &rv);
    return rv;
  }
  \<close>
  \<^verbatim>\<open>rv\<close> is one uninitialised cell. When the driver stored nothing and the call
  returned, \<^verbatim>\<open>rv\<close> is returned uninitialised: its value is indeterminate and there is no
  result.
\<close>

definition get_single ::
  "thread_id \<Rightarrow> addr \<times> Context_impl \<Rightarrow> getter \<Rightarrow> (GLenum \<Rightarrow> GLenum \<times> 'a list) \<Rightarrow> GLenum
     \<Rightarrow> world \<Rightarrow> ((exception + 'a) \<times> world) option" where
  "get_single t context g GET param w =
     (case get_out t context g GET param [None] w of
        None \<Rightarrow> None
      | Some (Inl e, w1) \<Rightarrow> Some (Inl e, w1)
      | Some (Inr rv, w1) \<Rightarrow> (case rv of [Some v] \<Rightarrow> Some (Inr v, w1) | _ \<Rightarrow> None))"

text \<open>The result of \<open>f\<close> applied to a returned value; an exception passes through.\<close>

definition returning ::
  "('a \<Rightarrow> 'b) \<Rightarrow> ((exception + 'a) \<times> world) option \<Rightarrow> ((exception + 'b) \<times> world) option" where
  "returning f r =
     (case r of
        None \<Rightarrow> None
      | Some (Inl e, w) \<Rightarrow> Some (Inl e, w)
      | Some (Inr v, w) \<Rightarrow> Some (Inr (f v), w))"

text \<open>
  The six specialisations of \<^verbatim>\<open>gl::get<T>\<close> (lines 127-157). \<^verbatim>\<open>get<bool>\<close> converts the
  \<^verbatim>\<open>GLboolean\<close> (an unsigned byte) to \<^verbatim>\<open>bool\<close>: nonzero is true.
\<close>

definition get_int ::
  "('f, 'd) driver \<Rightarrow> thread_id \<Rightarrow> addr \<times> Context_impl \<Rightarrow> GLenum \<Rightarrow> world
     \<Rightarrow> ((exception + 32 word) \<times> world) option" where
  "get_int D t context param w =
     get_single t context glGetIntegerv (drv_glGetIntegerv D) param w"

definition get_int64 ::
  "('f, 'd) driver \<Rightarrow> thread_id \<Rightarrow> addr \<times> Context_impl \<Rightarrow> GLenum \<Rightarrow> world
     \<Rightarrow> ((exception + 64 word) \<times> world) option" where
  "get_int64 D t context param w =
     get_single t context glGetInteger64v (drv_glGetInteger64v D) param w"

definition get_bool ::
  "('f, 'd) driver \<Rightarrow> thread_id \<Rightarrow> addr \<times> Context_impl \<Rightarrow> GLenum \<Rightarrow> world
     \<Rightarrow> ((exception + bool) \<times> world) option" where
  "get_bool D t context param w =
     returning (\<lambda>v. v \<noteq> 0)
       (get_single t context glGetBooleanv (drv_glGetBooleanv D) param w)"

definition get_double ::
  "('f, 'd) driver \<Rightarrow> thread_id \<Rightarrow> addr \<times> Context_impl \<Rightarrow> GLenum \<Rightarrow> world
     \<Rightarrow> ((exception + 'd) \<times> world) option" where
  "get_double D t context param w =
     get_single t context glGetDoublev (drv_glGetDoublev D) param w"

definition get_float ::
  "('f, 'd) driver \<Rightarrow> thread_id \<Rightarrow> addr \<times> Context_impl \<Rightarrow> GLenum \<Rightarrow> world
     \<Rightarrow> ((exception + 'f) \<times> world) option" where
  "get_float D t context param w =
     get_single t context glGetFloatv (drv_glGetFloatv D) param w"

text \<open>
  \<^verbatim>\<open>
  template<>
  inline color get<color>(Context const& context, GLenum param) {
    color c;
    get<GLfloat, glGetFloatv>(context, param, reinterpret_cast<GLfloat*>(&c));
    return c;
  }
  \<close>
  The class \<^verbatim>\<open>color\<close> is not part of the sources; the spec describes it as four floats
  (r, g, b, a), so \<^verbatim>\<open>c\<close> is four cells. A component the driver did not store holds what
  \<^verbatim>\<open>color c;\<close> left there, which the sources do not show: it stays \<open>None\<close>. The last
  branch cannot occur, as storing keeps the number of cells.
\<close>

type_synonym 'f color = "'f option \<times> 'f option \<times> 'f option \<times> 'f option"

definition get_color ::
  "('f, 'd) driver \<Rightarrow> thread_id \<Rightarrow> addr \<times> Context_impl \<Rightarrow> GLenum \<Rightarrow> world
     \<Rightarrow> ((exception + 'f color) \<times> world) option" where
  "get_color D t context param w =
     (case get_out t context glGetFloatv (drv_glGetFloatv D) param [None, None, None, None] w of
        None \<Rightarrow> None
      | Some (Inl e, w1) \<Rightarrow> Some (Inl e, w1)
      | Some (Inr c, w1) \<Rightarrow>
          (case c of [r, g, b, a] \<Rightarrow> Some (Inr (r, g, b, a), w1) | _ \<Rightarrow> None))"

text \<open>
  \<^verbatim>\<open>gl::get<T>\<close> for a type chosen by a tag, the result tagged with its type, so that a
  statement can range over the supported types.
\<close>

datatype gl_type = T_int | T_int64 | T_bool | T_double | T_float | T_color

datatype ('f, 'd) gl_value =
    V_int "32 word" | V_int64 "64 word" | V_bool bool | V_double 'd | V_float 'f
  | V_color "'f color"

definition get ::
  "gl_type \<Rightarrow> ('f, 'd) driver \<Rightarrow> thread_id \<Rightarrow> addr \<times> Context_impl \<Rightarrow> GLenum \<Rightarrow> world
     \<Rightarrow> ((exception + ('f, 'd) gl_value) \<times> world) option" where
  "get T D t context param w =
     (case T of
        T_int \<Rightarrow> returning V_int (get_int D t context param w)
      | T_int64 \<Rightarrow> returning V_int64 (get_int64 D t context param w)
      | T_bool \<Rightarrow> returning V_bool (get_bool D t context param w)
      | T_double \<Rightarrow> returning V_double (get_double D t context param w)
      | T_float \<Rightarrow> returning V_float (get_float D t context param w)
      | T_color \<Rightarrow> returning V_color (get_color D t context param w))"

text \<open>
  What the driver reports for a query of type \<open>T\<close>: the entry point asked, the error
  code it signals, and the value it stores, read at type \<open>T\<close>. There is such a value when
  the driver stores exactly as many values as \<open>T\<close> holds: one, or four for a color.
\<close>

definition entry_point :: "gl_type \<Rightarrow> getter" where
  "entry_point T =
     (case T of T_int \<Rightarrow> glGetIntegerv | T_int64 \<Rightarrow> glGetInteger64v | T_bool \<Rightarrow> glGetBooleanv
      | T_double \<Rightarrow> glGetDoublev | T_float \<Rightarrow> glGetFloatv | T_color \<Rightarrow> glGetFloatv)"

definition reported_error :: "gl_type \<Rightarrow> ('f, 'd) driver \<Rightarrow> GLenum \<Rightarrow> GLenum" where
  "reported_error T D param =
     (case T of
        T_int \<Rightarrow> fst (drv_glGetIntegerv D param)
      | T_int64 \<Rightarrow> fst (drv_glGetInteger64v D param)
      | T_bool \<Rightarrow> fst (drv_glGetBooleanv D param)
      | T_double \<Rightarrow> fst (drv_glGetDoublev D param)
      | T_float \<Rightarrow> fst (drv_glGetFloatv D param)
      | T_color \<Rightarrow> fst (drv_glGetFloatv D param))"

definition reported_value ::
  "gl_type \<Rightarrow> ('f, 'd) driver \<Rightarrow> GLenum \<Rightarrow> ('f, 'd) gl_value option" where
  "reported_value T D param =
     (case T of
        T_int \<Rightarrow> (case snd (drv_glGetIntegerv D param) of [v] \<Rightarrow> Some (V_int v) | _ \<Rightarrow> None)
      | T_int64 \<Rightarrow>
          (case snd (drv_glGetInteger64v D param) of [v] \<Rightarrow> Some (V_int64 v) | _ \<Rightarrow> None)
      | T_bool \<Rightarrow>
          (case snd (drv_glGetBooleanv D param) of [v] \<Rightarrow> Some (V_bool (v \<noteq> 0)) | _ \<Rightarrow> None)
      | T_double \<Rightarrow>
          (case snd (drv_glGetDoublev D param) of [v] \<Rightarrow> Some (V_double v) | _ \<Rightarrow> None)
      | T_float \<Rightarrow>
          (case snd (drv_glGetFloatv D param) of [v] \<Rightarrow> Some (V_float v) | _ \<Rightarrow> None)
      | T_color \<Rightarrow>
          (case snd (drv_glGetFloatv D param) of
             [r, g, b, a] \<Rightarrow> Some (V_color (Some r, Some g, Some b, Some a))
           | _ \<Rightarrow> None))"

subsection \<open>Programs: sequences of operations on live instances\<close>

text \<open>
  A client program is a sequence of constructions, calls of \<^verbatim>\<open>make_current()\<close> and
  \<^verbatim>\<open>current()\<close> on a thread, and destructions. A step is \<open>None\<close> when the program is
  not a C++ program with defined behaviour: a method called on an address that holds no
  instance, or an allocation at an address that is already taken. The reachable worlds
  are the \<open>w\<close> with \<open>run ops init_world = Some w\<close> for some \<open>ops\<close>.
\<close>

datatype op =
    New_Mono addr "addr option"
  | New_Multi thread_id addr "addr option"
  | Make_current thread_id addr
  | Current thread_id addr
  | Delete thread_id addr

fun exec :: "op \<Rightarrow> world \<Rightarrow> world option" where
  "exec (New_Mono a h) w =
     (if objs w a \<noteq> None then None else Some (snd (MonoContext_impl_ctor a h w)))"
| "exec (New_Multi t a h) w =
     (if objs w a \<noteq> None then None else Some (snd (MultiContext_impl_ctor t a h w)))"
| "exec (Make_current t a) w =
     (case objs w a of None \<Rightarrow> None | Some c \<Rightarrow> Some (snd (Context_make_current t a c w)))"
| "exec (Current t a) w =
     (case objs w a of None \<Rightarrow> None | Some c \<Rightarrow> Some (snd (Context_current t a c w)))"
| "exec (Delete t a) w =
     (case objs w a of None \<Rightarrow> None | Some c \<Rightarrow> Some (delete_impl t a c w))"

fun run :: "op list \<Rightarrow> world \<Rightarrow> world option" where
  "run [] w = Some w"
| "run (x # xs) w = (case exec x w of None \<Rightarrow> None | Some w' \<Rightarrow> run xs w')"

text \<open>The operations that call \<^verbatim>\<open>make_current()\<close> on the instance at address \<open>b\<close>.\<close>

fun makes_current :: "addr \<Rightarrow> op \<Rightarrow> bool" where
  "makes_current b (New_Mono a h) = (a = b)"
| "makes_current b (New_Multi t a h) = (a = b)"
| "makes_current b (Make_current t a) = (a = b)"
| "makes_current b (Current t a) = False"
| "makes_current b (Delete t a) = False"

text \<open>The slot an instance of kind \<open>k\<close> competes for holds no instance.\<close>

definition slot_empty :: "impl_kind \<Rightarrow> world \<Rightarrow> bool" where
  "slot_empty k w =
     (case k of
        Mono \<Rightarrow> Mono_current_context w = None
      | Multi tid \<Rightarrow> Multi_current_context w tid = None)"

text \<open>\<^verbatim>\<open>is_current()\<close> of the spec: \<^verbatim>\<open>Context::current()\<close> returns true.\<close>

definition is_current :: "thread_id \<Rightarrow> addr \<Rightarrow> Context_impl \<Rightarrow> world \<Rightarrow> bool" where
  "is_current t this c w = (fst (Context_current t this c w) = Inr True)"

text \<open>
  No two distinct live instances are current in the same scope: two single-owner instances
  (queried on any threads), or two per-thread-owner instances queried on the same thread.
\<close>

definition at_most_one_current :: "world \<Rightarrow> bool" where
  "at_most_one_current w =
     (\<forall>a b ca cb t t'.
        objs w a = Some ca \<and> objs w b = Some cb \<and> a \<noteq> b \<and>
        (kind ca = Mono \<and> kind cb = Mono \<or> kind ca \<noteq> Mono \<and> kind cb \<noteq> Mono \<and> t = t')
        \<longrightarrow> \<not> (is_current t a ca w \<and> is_current t' b cb w))"

text \<open>The registry slot for instances of kind \<open>k\<close> names the instance at address \<open>b\<close>.\<close>

definition registered :: "addr \<Rightarrow> impl_kind \<Rightarrow> world \<Rightarrow> bool" where
  "registered b k w =
     (case k of
        Mono \<Rightarrow> Mono_current_context w = Some b
      | Multi tid \<Rightarrow> Multi_current_context w tid = Some (Some b))"

text \<open>
  Every pointer in the registries names a live instance of the matching dynamic type, and
  for the map, of the matching creating thread; the map holds no null pointer.
\<close>

definition registry_consistent :: "world \<Rightarrow> bool" where
  "registry_consistent w =
     ((\<forall>a. Mono_current_context w = Some a \<longrightarrow> (\<exists>c. objs w a = Some c \<and> kind c = Mono))
    \<and> (\<forall>t p. Multi_current_context w t = Some p
           \<longrightarrow> (\<exists>a c. p = Some a \<and> objs w a = Some c \<and> kind c = Multi t)))"

text \<open>
  Two drivers for evaluating the methods on concrete inputs. The first signals no error,
  answers every integer query with 3 and every float query with four floats (as the
  driver does for \<^verbatim>\<open>GL_COLOR_CLEAR_VALUE\<close>, 0x0C22). The second rejects every integer
  query with \<^verbatim>\<open>GL_INVALID_ENUM\<close> (0x0500) and stores nothing.
\<close>

definition quiet_driver :: "(nat, nat) driver" where
  "quiet_driver =
     \<lparr>drv_glClear = (\<lambda>m. 0), drv_glGetIntegerv = (\<lambda>p. (0, [3])),
      drv_glGetInteger64v = (\<lambda>p. (0, [0])), drv_glGetBooleanv = (\<lambda>p. (0, [1])),
      drv_glGetDoublev = (\<lambda>p. (0, [0])), drv_glGetFloatv = (\<lambda>p. (0, [1, 2, 3, 4]))\<rparr>"


section \<open>Properties\<close>

lemmas method_defs =
  MonoContext_impl_make_current_def MonoContext_impl_current_def MonoContext_impl_dtor_def
  MultiContext_impl_make_current_def MultiContext_impl_current_def MultiContext_impl_dtor_def
  Context_make_current_def Context_current_def on_made_not_current_def emit_def subscript_def
  Let_def

lemmas get_defs =
  get_def get_int_def get_int64_def get_bool_def get_double_def get_float_def get_color_def
  get_single_def returning_def entry_point_def reported_error_def reported_value_def

lemmas ctor_defs =
  MonoContext_impl_ctor_def MultiContext_impl_ctor_def Context_impl_ctor_def alloc_def free_def
  delete_impl_def init_world_def

text \<open>What \<^verbatim>\<open>current()\<close> returns, and that it changes nothing but the trace.\<close>

lemma Context_current_result:
  "fst (Context_current t this c w) =
     Inr (case kind c of
            Mono \<Rightarrow> Mono_current_context w = Some this
          | Multi tid \<Rightarrow> t = tid \<and> Multi_current_context w tid = Some (Some this))"
  by (auto simp: method_defs split: impl_kind.splits option.splits)

lemma Context_current_registries:
  "Mono_current_context (snd (Context_current t this c w)) = Mono_current_context w"
  "Multi_current_context (snd (Context_current t this c w)) = Multi_current_context w"
  "objs (snd (Context_current t this c w)) = objs w"
  by (auto simp: method_defs split: impl_kind.splits option.splits)

text \<open>\<^verbatim>\<open>make_current()\<close> of the per-thread-owner variant on the creating thread.\<close>

lemma Multi_make_current_own:
  "fst (MultiContext_impl_make_current t this t w) = Inr ()"
  "Multi_current_context (snd (MultiContext_impl_make_current t this t w)) =
     (Multi_current_context w)(t \<mapsto> Some this)"
  "Mono_current_context (snd (MultiContext_impl_make_current t this t w)) =
     Mono_current_context w"
  "objs (snd (MultiContext_impl_make_current t this t w)) = objs w"
  by (auto simp: method_defs split: option.splits)

subsection \<open>Single-owner hand-over\<close>

text \<open>
  C1. For two distinct single-owner instances \<open>A\<close> and \<open>B\<close> and any starting world:
  after \<open>A.make_current()\<close> and then \<open>B.make_current()\<close>, \<open>A.current()\<close> is false and
  \<open>B.current()\<close> is true. Among the effects of the two calls the hook of \<open>A\<close> is called
  exactly once, and that call comes immediately before the one assignment of \<open>B\<close> to the
  process-wide pointer.
\<close>

theorem C1_mono_handover:
  assumes "A \<noteq> B"
  shows "let w1 = snd (MonoContext_impl_make_current A w);
             w2 = snd (MonoContext_impl_make_current B w1)
         in fst (MonoContext_impl_make_current A w) = Inr ()
          \<and> fst (MonoContext_impl_make_current B w1) = Inr ()
          \<and> fst (MonoContext_impl_current A w2) = Inr False
          \<and> fst (MonoContext_impl_current B w2) = Inr True
          \<and> (\<exists>es. trace w2 = trace w @ es @ [Hook A, Mono_store (Some B)]
                 \<and> Hook A \<notin> set es \<and> Mono_store (Some B) \<notin> set es)"
  using assms
  by (auto simp: method_defs split: option.splits)

theorem C1_mono_handover_witness:
  "(1::addr) \<noteq> 2 \<and>
   (let w1 = snd (MonoContext_impl_make_current 1 init_world);
        w2 = snd (MonoContext_impl_make_current 2 w1)
    in fst (MonoContext_impl_current 1 w2) = Inr False
     \<and> fst (MonoContext_impl_current 2 w2) = Inr True
     \<and> trace w2 = [Mono_store (Some 1), Hook 1, Mono_store (Some 2)])"
  using C1_mono_handover [of 1 2 init_world]
  by (simp add: method_defs init_world_def)

subsection \<open>Cross-thread make-current\<close>

text \<open>
  C2. For a per-thread-owner instance whose creating thread is \<open>tid\<close>, \<open>make_current()\<close>
  called on any other thread \<open>t\<close> throws the exception "attempt to make Context current on
  another thread" and returns the world as it was: the map (and everything else) is
  unchanged.
\<close>

theorem C2_multi_cross_thread:
  assumes "kind c = Multi tid" and "t \<noteq> tid"
  shows "Context_make_current t this c w =
           (Inl (gl_exception ''attempt to make Context current on another thread''), w)"
  using assms by (simp add: Context_make_current_def MultiContext_impl_make_current_def)

text \<open>
  The instance is constructed on thread 1 at address 7; thread 2 then calls
  \<open>make_current()\<close> on it.
\<close>

theorem C2_multi_cross_thread_witness:
  "fst (MultiContext_impl_ctor 1 7 None init_world) = Inr (Context_impl_ctor None (Multi 1))
   \<and> kind (Context_impl_ctor None (Multi 1)) = Multi 1 \<and> (2::thread_id) \<noteq> 1
   \<and> Context_make_current 2 7 (Context_impl_ctor None (Multi 1))
         (snd (MultiContext_impl_ctor 1 7 None init_world)) =
       (Inl (gl_exception ''attempt to make Context current on another thread''),
        snd (MultiContext_impl_ctor 1 7 None init_world))
   \<and> Multi_current_context (snd (MultiContext_impl_ctor 1 7 None init_world)) 1 = Some (Some 7)"
  using C2_multi_cross_thread [of "Context_impl_ctor None (Multi 1)" 1 2 7
      "snd (MultiContext_impl_ctor 1 7 None init_world)"]
  by (simp add: method_defs ctor_defs)

subsection \<open>Independent thread slots\<close>

text \<open>
  C3. Let \<open>A\<close> be a per-thread-owner instance created on thread \<open>T1\<close> and \<open>B\<close> one
  created on a different thread \<open>T2\<close>. From any world, \<open>T1\<close> calling \<open>A.make_current()\<close>
  and \<open>T2\<close> calling \<open>B.make_current()\<close> both succeed in either order; afterwards
  \<open>A.current()\<close> is true on \<open>T1\<close> and \<open>B.current()\<close> is true on \<open>T2\<close>; both orders
  end with the same map; and neither call changes the other thread's slot.
\<close>

theorem C3_multi_independent:
  assumes "kind cA = Multi T1" and "kind cB = Multi T2" and "T1 \<noteq> T2"
  shows "let wA = snd (Context_make_current T1 A cA w);
             wAB = snd (Context_make_current T2 B cB wA);
             wB = snd (Context_make_current T2 B cB w);
             wBA = snd (Context_make_current T1 A cA wB)
         in fst (Context_make_current T1 A cA w) = Inr ()
          \<and> fst (Context_make_current T2 B cB wA) = Inr ()
          \<and> fst (Context_make_current T2 B cB w) = Inr ()
          \<and> fst (Context_make_current T1 A cA wB) = Inr ()
          \<and> fst (Context_current T1 A cA wAB) = Inr True
          \<and> fst (Context_current T2 B cB wAB) = Inr True
          \<and> fst (Context_current T1 A cA wBA) = Inr True
          \<and> fst (Context_current T2 B cB wBA) = Inr True
          \<and> Multi_current_context wAB = Multi_current_context wBA
          \<and> Multi_current_context wB T1 = Multi_current_context w T1
          \<and> Multi_current_context wA T2 = Multi_current_context w T2"
proof -
  have mc: "Context_make_current T1 A cA = MultiContext_impl_make_current T1 A T1"
    "Context_make_current T2 B cB = MultiContext_impl_make_current T2 B T2"
    using assms(1,2) by (auto simp: Context_make_current_def)
  show ?thesis
    using assms
    by (simp add: Let_def mc Multi_make_current_own Context_current_result fun_upd_twist)
qed

theorem C3_multi_independent_witness:
  "kind (Context_impl_ctor None (Multi 1)) = Multi 1
   \<and> kind (Context_impl_ctor None (Multi 2)) = Multi 2 \<and> (1::thread_id) \<noteq> 2
   \<and> (let wA = snd (Context_make_current 1 10 (Context_impl_ctor None (Multi 1)) init_world);
          wAB = snd (Context_make_current 2 20 (Context_impl_ctor None (Multi 2)) wA);
          wB = snd (Context_make_current 2 20 (Context_impl_ctor None (Multi 2)) init_world);
          wBA = snd (Context_make_current 1 10 (Context_impl_ctor None (Multi 1)) wB)
       in fst (Context_current 1 10 (Context_impl_ctor None (Multi 1)) wAB) = Inr True
        \<and> fst (Context_current 2 20 (Context_impl_ctor None (Multi 2)) wAB) = Inr True
        \<and> Multi_current_context wAB 1 = Some (Some 10)
        \<and> Multi_current_context wAB 2 = Some (Some 20)
        \<and> Multi_current_context wBA 1 = Some (Some 10)
        \<and> Multi_current_context wBA 2 = Some (Some 20))"
  using C3_multi_independent [of "Context_impl_ctor None (Multi 1)" 1
      "Context_impl_ctor None (Multi 2)" 2 10 init_world 20]
  by (simp add: method_defs ctor_defs)

subsection \<open>At most one current instance per scope\<close>

lemma at_most_one_current_any: "at_most_one_current w"
  unfolding at_most_one_current_def is_current_def Context_current_result
  by (auto split: impl_kind.splits)

lemma run_append:
  "run (xs @ ys) w = (case run xs w of None \<Rightarrow> None | Some w' \<Rightarrow> run ys w')"
  by (induction xs arbitrary: w) (auto split: option.splits)

text \<open>
  C4. In the initial world and in every world reached by a program, no two distinct live
  instances are current in the same scope (the process for the single-owner variant, one
  thread for the per-thread-owner variant); and every further operation (construction,
  \<open>make_current\<close>, \<open>current\<close>, destruction) leads to a reachable world where this holds
  again.
\<close>

theorem C4_at_most_one_current:
  "at_most_one_current init_world
   \<and> (run ops init_world = Some w \<longrightarrow> at_most_one_current w)
   \<and> (run ops init_world = Some w \<and> exec op w = Some w'
        \<longrightarrow> run (ops @ [op]) init_world = Some w' \<and> at_most_one_current w')"
  by (simp add: at_most_one_current_any run_append)

theorem C4_at_most_one_current_witness:
  "run [New_Mono 1 None, New_Mono 2 None, New_Multi 5 3 None] init_world \<noteq> None
   \<and> at_most_one_current
        (the (run [New_Mono 1 None, New_Mono 2 None, New_Multi 5 3 None] init_world))
   \<and> is_current 0 2 (Context_impl_ctor None Mono)
        (the (run [New_Mono 1 None, New_Mono 2 None, New_Multi 5 3 None] init_world))
   \<and> \<not> is_current 0 1 (Context_impl_ctor None Mono)
        (the (run [New_Mono 1 None, New_Mono 2 None, New_Multi 5 3 None] init_world))
   \<and> exec (Make_current 0 1)
        (the (run [New_Mono 1 None, New_Mono 2 None, New_Multi 5 3 None] init_world)) \<noteq> None
   \<and> at_most_one_current
        (the (exec (Make_current 0 1)
           (the (run [New_Mono 1 None, New_Mono 2 None, New_Multi 5 3 None] init_world))))"
  using C4_at_most_one_current [of "[New_Mono 1 None, New_Mono 2 None, New_Multi 5 3 None]"
      "the (run [New_Mono 1 None, New_Mono 2 None, New_Multi 5 3 None] init_world)"
      "Make_current 0 1"
      "the (exec (Make_current 0 1)
           (the (run [New_Mono 1 None, New_Mono 2 None, New_Multi 5 3 None] init_world)))"]
  by (simp add: method_defs ctor_defs is_current_def)

text \<open>
  The registries of a reachable world hold no dangling pointer: what a slot names is a
  live instance that competes for that slot.
\<close>

lemma registry_consistentI:
  assumes "\<And>a. Mono_current_context w = Some a \<Longrightarrow> \<exists>c. objs w a = Some c \<and> kind c = Mono"
    and "\<And>t p. Multi_current_context w t = Some p
           \<Longrightarrow> \<exists>a c. p = Some a \<and> objs w a = Some c \<and> kind c = Multi t"
  shows "registry_consistent w"
  using assms unfolding registry_consistent_def by blast

lemma registry_consistent_Mono:
  "registry_consistent w \<Longrightarrow> Mono_current_context w = Some a
     \<Longrightarrow> \<exists>c. objs w a = Some c \<and> kind c = Mono"
  unfolding registry_consistent_def by blast

lemma registry_consistent_Multi:
  "registry_consistent w \<Longrightarrow> Multi_current_context w t = Some p
     \<Longrightarrow> \<exists>a c. p = Some a \<and> objs w a = Some c \<and> kind c = Multi t"
  unfolding registry_consistent_def by blast

lemma init_consistent: "registry_consistent init_world"
  by (simp add: registry_consistent_def init_world_def)

lemma Mono_make_current_effect:
  "Mono_current_context (snd (MonoContext_impl_make_current this w)) = Some this"
  "Multi_current_context (snd (MonoContext_impl_make_current this w)) = Multi_current_context w"
  "objs (snd (MonoContext_impl_make_current this w)) = objs w"
  by (auto simp: method_defs split: option.splits)

lemma Mono_dtor_effect:
  "Mono_current_context (MonoContext_impl_dtor this w) =
     (if Mono_current_context w = Some this then None else Mono_current_context w)"
  "Multi_current_context (MonoContext_impl_dtor this w) = Multi_current_context w"
  "objs (MonoContext_impl_dtor this w) = objs w"
  by (auto simp: method_defs)

lemma Multi_dtor_effect:
  "Mono_current_context (MultiContext_impl_dtor t this tid w) = Mono_current_context w"
  "Multi_current_context (MultiContext_impl_dtor t this tid w) =
     (if Multi_current_context w tid = Some (Some this)
      then (Multi_current_context w)(tid := None) else Multi_current_context w)"
  "objs (MultiContext_impl_dtor t this tid w) = objs w"
  by (auto simp: method_defs split: option.splits)

lemma Multi_make_current_other:
  "t \<noteq> tid \<Longrightarrow> snd (MultiContext_impl_make_current t this tid w) = w"
  by (simp add: MultiContext_impl_make_current_def)

lemma ctor_snd:
  "snd (MonoContext_impl_ctor this h w) =
     snd (MonoContext_impl_make_current this (alloc this (Context_impl_ctor h Mono) w))"
  "snd (MultiContext_impl_ctor t this h w) =
     snd (MultiContext_impl_make_current t this t (alloc this (Context_impl_ctor h (Multi t)) w))"
  by (simp_all add: MonoContext_impl_ctor_def MultiContext_impl_ctor_def
      MonoContext_impl_make_current_def MultiContext_impl_make_current_def Let_def)

lemma alloc_effect:
  "Mono_current_context (alloc a c w) = Mono_current_context w"
  "Multi_current_context (alloc a c w) = Multi_current_context w"
  "objs (alloc a c w) = (objs w)(a \<mapsto> c)"
  by (simp_all add: alloc_def)

lemma exec_consistent:
  assumes rc: "registry_consistent w" and ex: "exec op w = Some w'"
  shows "registry_consistent w'"
proof (cases op)
  case (New_Mono a h)
  with ex have fresh: "objs w a = None"
    and m: "Mono_current_context w' = Some a"
    and mm: "Multi_current_context w' = Multi_current_context w"
    and o: "objs w' = (objs w)(a \<mapsto> Context_impl_ctor h Mono)"
    by (auto simp: ctor_snd Mono_make_current_effect alloc_effect split: if_splits)
  show ?thesis
  proof (rule registry_consistentI)
    fix x assume "Mono_current_context w' = Some x"
    with m o show "\<exists>c. objs w' x = Some c \<and> kind c = Mono"
      by (simp add: Context_impl_ctor_def)
  next
    fix t p assume "Multi_current_context w' t = Some p"
    with mm rc obtain b c where "p = Some b" "objs w b = Some c" "kind c = Multi t"
      by (auto dest!: registry_consistent_Multi)
    with fresh o show "\<exists>b c. p = Some b \<and> objs w' b = Some c \<and> kind c = Multi t"
      by auto
  qed
next
  case (New_Multi t0 a h)
  with ex have fresh: "objs w a = None"
    and m: "Mono_current_context w' = Mono_current_context w"
    and mm: "Multi_current_context w' = (Multi_current_context w)(t0 \<mapsto> Some a)"
    and o: "objs w' = (objs w)(a \<mapsto> Context_impl_ctor h (Multi t0))"
    by (auto simp: ctor_snd Multi_make_current_own alloc_effect split: if_splits)
  show ?thesis
  proof (rule registry_consistentI)
    fix x assume "Mono_current_context w' = Some x"
    with m rc obtain c where "objs w x = Some c" "kind c = Mono"
      by (auto dest!: registry_consistent_Mono)
    with fresh o show "\<exists>c. objs w' x = Some c \<and> kind c = Mono"
      by auto
  next
    fix t p assume p: "Multi_current_context w' t = Some p"
    show "\<exists>b c. p = Some b \<and> objs w' b = Some c \<and> kind c = Multi t"
    proof (cases "t = t0")
      case True
      with p mm o show ?thesis
        by (auto simp: Context_impl_ctor_def)
    next
      case False
      with p mm rc obtain b c where "p = Some b" "objs w b = Some c" "kind c = Multi t"
        by (auto dest!: registry_consistent_Multi)
      with fresh o show ?thesis
        by auto
    qed
  qed
next
  case (Make_current t0 a)
  with ex obtain c0 where c0: "objs w a = Some c0"
    and w': "w' = snd (Context_make_current t0 a c0 w)"
    by (auto split: option.splits)
  show ?thesis
  proof (cases "kind c0")
    case Mono
    with w' have m: "Mono_current_context w' = Some a"
      and mm: "Multi_current_context w' = Multi_current_context w"
      and o: "objs w' = objs w"
      by (simp_all add: Context_make_current_def Mono_make_current_effect)
    show ?thesis
    proof (rule registry_consistentI)
      fix x assume "Mono_current_context w' = Some x"
      with m o c0 Mono show "\<exists>c. objs w' x = Some c \<and> kind c = Mono"
        by simp
    next
      fix t p assume "Multi_current_context w' t = Some p"
      with mm o rc show "\<exists>b c. p = Some b \<and> objs w' b = Some c \<and> kind c = Multi t"
        by (auto dest!: registry_consistent_Multi)
    qed
  next
    case (Multi tid)
    show ?thesis
    proof (cases "t0 = tid")
      case False
      with Multi w' rc show ?thesis
        by (simp add: Context_make_current_def Multi_make_current_other)
    next
      case True
      with Multi w' have m: "Mono_current_context w' = Mono_current_context w"
        and mm: "Multi_current_context w' = (Multi_current_context w)(tid \<mapsto> Some a)"
        and o: "objs w' = objs w"
        by (simp_all add: Context_make_current_def Multi_make_current_own)
      show ?thesis
      proof (rule registry_consistentI)
        fix x assume "Mono_current_context w' = Some x"
        with m o rc show "\<exists>c. objs w' x = Some c \<and> kind c = Mono"
          by (auto dest!: registry_consistent_Mono)
      next
        fix t p assume p: "Multi_current_context w' t = Some p"
        show "\<exists>b c. p = Some b \<and> objs w' b = Some c \<and> kind c = Multi t"
        proof (cases "t = tid")
          case True
          with p mm o c0 Multi show ?thesis
            by auto
        next
          case False
          with p mm o rc show ?thesis
            by (auto dest!: registry_consistent_Multi)
        qed
      qed
    qed
  qed
next
  case (Current t0 a)
  with ex obtain c0 where "w' = snd (Context_current t0 a c0 w)"
    by (auto split: option.splits)
  with rc show ?thesis
    by (simp add: registry_consistent_def Context_current_registries)
next
  case (Delete t0 a)
  with ex obtain c0 where c0: "objs w a = Some c0" and w': "w' = delete_impl t0 a c0 w"
    by (auto split: option.splits)
  show ?thesis
  proof (cases "kind c0")
    case Mono
    with w' have m: "Mono_current_context w' =
        (if Mono_current_context w = Some a then None else Mono_current_context w)"
      and mm: "Multi_current_context w' = Multi_current_context w"
      and o: "objs w' = (objs w)(a := None)"
      by (simp_all add: delete_impl_def free_def Mono_dtor_effect)
    show ?thesis
    proof (rule registry_consistentI)
      fix x assume x: "Mono_current_context w' = Some x"
      with m have "Mono_current_context w = Some x" "x \<noteq> a"
        by (auto split: if_splits)
      with o rc show "\<exists>c. objs w' x = Some c \<and> kind c = Mono"
        by (auto dest!: registry_consistent_Mono)
    next
      fix t p assume "Multi_current_context w' t = Some p"
      with mm rc obtain b c where b: "p = Some b" "objs w b = Some c" "kind c = Multi t"
        by (auto dest!: registry_consistent_Multi)
      with c0 Mono have "b \<noteq> a"
        by auto
      with b o show "\<exists>b c. p = Some b \<and> objs w' b = Some c \<and> kind c = Multi t"
        by auto
    qed
  next
    case (Multi tid)
    with w' have m: "Mono_current_context w' = Mono_current_context w"
      and mm: "Multi_current_context w' =
        (if Multi_current_context w tid = Some (Some a)
         then (Multi_current_context w)(tid := None) else Multi_current_context w)"
      and o: "objs w' = (objs w)(a := None)"
      by (simp_all add: delete_impl_def free_def Multi_dtor_effect)
    show ?thesis
    proof (rule registry_consistentI)
      fix x assume "Mono_current_context w' = Some x"
      with m rc obtain c where c: "objs w x = Some c" "kind c = Mono"
        by (auto dest!: registry_consistent_Mono)
      with c0 Multi have "x \<noteq> a"
        by auto
      with c o show "\<exists>c. objs w' x = Some c \<and> kind c = Mono"
        by auto
    next
      fix t p assume p: "Multi_current_context w' t = Some p"
      with mm have p0: "Multi_current_context w t = Some p"
        by (auto split: if_splits)
      with rc obtain b c where b: "p = Some b" "objs w b = Some c" "kind c = Multi t"
        by (auto dest!: registry_consistent_Multi)
      have "b \<noteq> a"
      proof
        assume "b = a"
        with b c0 Multi have "t = tid" by simp
        with p0 b \<open>b = a\<close> p mm show False by simp
      qed
      with b o show "\<exists>b c. p = Some b \<and> objs w' b = Some c \<and> kind c = Multi t"
        by auto
    qed
  qed
qed

lemma run_consistent:
  assumes "run ops w = Some w'" and "registry_consistent w"
  shows "registry_consistent w'"
  using assms
proof (induction ops arbitrary: w)
  case Nil
  then show ?case by simp
next
  case (Cons x xs)
  from Cons.prems(1) obtain w1 where x: "exec x w = Some w1" and xs: "run xs w1 = Some w'"
    by (auto split: option.splits)
  from Cons.prems(2) x have "registry_consistent w1"
    by (rule exec_consistent)
  with xs show ?case
    by (rule Cons.IH)
qed

lemma reachable_registry_consistent:
  "run ops init_world = Some w \<Longrightarrow> registry_consistent w"
  by (rule run_consistent [OF _ init_consistent])

subsection \<open>Querying from another thread\<close>

text \<open>
  C5 (as amended). For a per-thread-owner instance, \<open>current()\<close> called on a thread other
  than the creating thread is not reported as a failure: it returns false. Only
  \<open>make_current()\<close> on such a thread fails.
\<close>

theorem C5_query_returns_false:
  assumes "kind c = Multi tid" and "t \<noteq> tid"
  shows "fst (Context_current t this c w) = Inr False
       \<and> \<not> isl (fst (Context_current t this c w))
       \<and> isl (fst (Context_make_current t this c w))"
  using assms by (simp add: method_defs)

theorem C5_query_returns_false_witness:
  "kind (Context_impl_ctor None (Multi 1)) = Multi 1 \<and> (2::thread_id) \<noteq> 1
   \<and> fst (Context_current 2 7 (Context_impl_ctor None (Multi 1))
            (snd (MultiContext_impl_ctor 1 7 None init_world))) = Inr False
   \<and> fst (Context_make_current 2 7 (Context_impl_ctor None (Multi 1))
            (snd (MultiContext_impl_ctor 1 7 None init_world))) =
       Inl (gl_exception ''attempt to make Context current on another thread'')"
  using C5_query_returns_false [of "Context_impl_ctor None (Multi 1)" 1 2 7
      "snd (MultiContext_impl_ctor 1 7 None init_world)"]
  by (simp add: method_defs ctor_defs)

text \<open>
  The claim as stated fails: an instance is constructed on thread 1 at address 7, thread 2
  asks whether it is current, and the call returns instead of throwing.
\<close>

theorem C5_counterexample:
  "kind (Context_impl_ctor None (Multi 1)) = Multi 1 \<and> (2::thread_id) \<noteq> 1
   \<and> \<not> isl (fst (Context_current 2 7 (Context_impl_ctor None (Multi 1))
                   (snd (MultiContext_impl_ctor 1 7 None init_world))))"
  by (simp add: method_defs ctor_defs)

text \<open>
  C6. For a per-thread-owner instance, \<open>current()\<close> called on a thread other than the
  creating thread returns false and the world it returns is the world it was given: no
  lock event is added to the trace, and neither the map nor anything else changes.
\<close>

theorem C6_query_other_thread:
  assumes "kind c = Multi tid" and "t \<noteq> tid"
  shows "Context_current t this c w = (Inr False, w)"
  using assms by (simp add: Context_current_def MultiContext_impl_current_def)

theorem C6_query_other_thread_witness:
  "kind (Context_impl_ctor None (Multi 1)) = Multi 1 \<and> (2::thread_id) \<noteq> 1
   \<and> Context_current 2 7 (Context_impl_ctor None (Multi 1))
        (snd (MultiContext_impl_ctor 1 7 None init_world)) =
       (Inr False, snd (MultiContext_impl_ctor 1 7 None init_world))
   \<and> trace (snd (MultiContext_impl_ctor 1 7 None init_world)) =
       [Lock 1, Multi_store 1 (Some 7), Unlock 1]
   \<and> Context_current 1 7 (Context_impl_ctor None (Multi 1))
        (snd (MultiContext_impl_ctor 1 7 None init_world)) =
       (Inr True, emit (Unlock 1) (emit (Lock 1) (snd (MultiContext_impl_ctor 1 7 None init_world))))"
  using C6_query_other_thread [of "Context_impl_ctor None (Multi 1)" 1 2 7
      "snd (MultiContext_impl_ctor 1 7 None init_world)"]
  by (simp add: method_defs ctor_defs)

subsection \<open>Destroying the current instance\<close>

lemma not_current_iff_not_registered:
  "fst (Context_current t b c w) = Inr False \<longleftrightarrow>
     \<not> (registered b (kind c) w \<and> (case kind c of Mono \<Rightarrow> True | Multi tid \<Rightarrow> t = tid))"
  unfolding Context_current_result registered_def
  by (auto split: impl_kind.splits)

lemma exec_keeps_unregistered:
  assumes "exec op w = Some w'" and "\<not> makes_current b op" and "\<not> registered b k w"
  shows "\<not> registered b k w'"
  using assms
  by (cases op; cases k)
     (auto simp: registered_def method_defs ctor_defs
           split: option.splits if_splits impl_kind.splits)

lemma run_keeps_unregistered:
  assumes "run ops w = Some w'" and "\<forall>op\<in>set ops. \<not> makes_current b op"
    and "\<not> registered b k w"
  shows "\<not> registered b k w'"
  using assms
proof (induction ops arbitrary: w)
  case Nil
  then show ?case by simp
next
  case (Cons x xs)
  from Cons.prems(1) obtain w1 where x: "exec x w = Some w1" and xs: "run xs w1 = Some w'"
    by (auto split: option.splits)
  from x Cons.prems(2,3) have "\<not> registered b k w1"
    by (auto dest: exec_keeps_unregistered)
  moreover from Cons.prems(2) have "\<forall>op\<in>set xs. \<not> makes_current b op"
    by simp
  ultimately show ?case
    using xs Cons.IH by blast
qed

lemma delete_impl_slot_empty:
  assumes "is_current t0 a ca w"
  shows "slot_empty (kind ca) (delete_impl t a ca w)"
  using assms
  unfolding is_current_def Context_current_result
  by (auto simp: slot_empty_def MonoContext_impl_dtor_def MultiContext_impl_dtor_def emit_def
      Let_def delete_impl_def free_def split: impl_kind.splits)

lemma slot_empty_unregistered: "slot_empty k w \<Longrightarrow> \<not> registered b k w"
  by (auto simp: slot_empty_def registered_def split: impl_kind.splits)

text \<open>
  C7. If the instance at \<open>a\<close> is current (on some thread \<open>t0\<close>) and is destroyed (on any
  thread \<open>t\<close>), its slot is empty afterwards: the process-wide pointer is null for the
  single-owner variant, the creating thread's entry is gone from the map for the
  per-thread-owner variant. From then on, for every instance \<open>b\<close> that competes for that
  slot and on every thread, \<open>current()\<close> returns false after any sequence of operations
  in which \<open>make_current()\<close> is not called on \<open>b\<close> (neither directly nor by a constructor).
\<close>

theorem C7_destroy_current:
  assumes "is_current t0 a ca w"
  shows "slot_empty (kind ca) (delete_impl t a ca w)
       \<and> (\<forall>ops w' b cb t'.
             run ops (delete_impl t a ca w) = Some w' \<and> kind cb = kind ca
             \<and> (\<forall>op\<in>set ops. \<not> makes_current b op)
             \<longrightarrow> fst (Context_current t' b cb w') = Inr False)"
proof -
  have e: "slot_empty (kind ca) (delete_impl t a ca w)"
    using assms by (rule delete_impl_slot_empty)
  have "fst (Context_current t' b cb w') = Inr False"
    if "run ops (delete_impl t a ca w) = Some w'" and "kind cb = kind ca"
      and "\<forall>op\<in>set ops. \<not> makes_current b op" for ops w' b cb t'
  proof -
    have "\<not> registered b (kind ca) (delete_impl t a ca w)"
      using e by (rule slot_empty_unregistered)
    with that(1,3) have "\<not> registered b (kind ca) w'"
      by (rule run_keeps_unregistered)
    with that(2) show ?thesis
      by (simp add: not_current_iff_not_registered)
  qed
  with e show ?thesis by blast
qed

text \<open>
  Two instances are created on thread 1; the second, current one is destroyed on thread 2.
  The same for two single-owner instances.
\<close>

theorem C7_destroy_current_witness:
  "is_current 1 11 (Context_impl_ctor None (Multi 1))
     (the (run [New_Multi 1 10 None, New_Multi 1 11 None] init_world))
   \<and> slot_empty (Multi 1)
       (delete_impl 2 11 (Context_impl_ctor None (Multi 1))
          (the (run [New_Multi 1 10 None, New_Multi 1 11 None] init_world)))
   \<and> fst (Context_current 1 10 (Context_impl_ctor None (Multi 1))
        (the (run [Current 1 10, New_Multi 3 12 None]
           (delete_impl 2 11 (Context_impl_ctor None (Multi 1))
              (the (run [New_Multi 1 10 None, New_Multi 1 11 None] init_world)))))) = Inr False
   \<and> is_current 0 2 (Context_impl_ctor None Mono)
       (the (run [New_Mono 1 None, New_Mono 2 None] init_world))
   \<and> slot_empty Mono
       (delete_impl 0 2 (Context_impl_ctor None Mono)
          (the (run [New_Mono 1 None, New_Mono 2 None] init_world)))
   \<and> fst (Context_current 0 1 (Context_impl_ctor None Mono)
        (delete_impl 0 2 (Context_impl_ctor None Mono)
           (the (run [New_Mono 1 None, New_Mono 2 None] init_world)))) = Inr False"
proof -
  let ?c = "Context_impl_ctor None (Multi 1)"
  let ?w = "the (run [New_Multi 1 10 None, New_Multi 1 11 None] init_world)"
  let ?ops = "[Current 1 10, New_Multi 3 12 None]"
  let ?m = "Context_impl_ctor None Mono"
  let ?v = "the (run [New_Mono 1 None, New_Mono 2 None] init_world)"
  have cur: "is_current 1 11 ?c ?w"
    by (simp add: is_current_def method_defs ctor_defs)
  have r: "run ?ops (delete_impl 2 11 ?c ?w) = Some (the (run ?ops (delete_impl 2 11 ?c ?w)))"
    by (simp add: method_defs ctor_defs)
  have q: "\<forall>op\<in>set ?ops. \<not> makes_current 10 op"
    by simp
  from C7_destroy_current [OF cur, of 2] r q
  have multi: "slot_empty (kind ?c) (delete_impl 2 11 ?c ?w)
      \<and> fst (Context_current 1 10 ?c (the (run ?ops (delete_impl 2 11 ?c ?w)))) = Inr False"
    by blast
  have cur': "is_current 0 2 ?m ?v"
    by (simp add: is_current_def method_defs ctor_defs)
  have r': "run [] (delete_impl 0 2 ?m ?v) = Some (delete_impl 0 2 ?m ?v)"
    by simp
  have q': "\<forall>op\<in>set []. \<not> makes_current 1 op"
    by simp
  from C7_destroy_current [OF cur', of 0] r' q'
  have mono: "slot_empty (kind ?m) (delete_impl 0 2 ?m ?v)
      \<and> fst (Context_current 0 1 ?m (delete_impl 0 2 ?m ?v)) = Inr False"
    by blast
  from cur multi cur' mono show ?thesis
    by (simp add: Context_impl_ctor_def)
qed

subsection \<open>Reading parameters\<close>










lemma GL_CALL_map: "GL_CALL (e, f v) = map_sum id f (GL_CALL (e, v))"
  by (simp add: GL_CALL_def)








subsection \<open>Making the current instance current again\<close>

text \<open>
  C9. If \<open>current()\<close> returns true for an instance on thread \<open>t\<close> (for the
  per-thread-owner variant this makes \<open>t\<close> the creating thread), then \<open>make_current()\<close>
  on that thread succeeds, leaves the process-wide pointer, the map and the instances as
  they were, and calls no instance's hook.
\<close>

theorem C9_make_current_idempotent:
  assumes "fst (Context_current t this c w) = Inr True"
  shows "fst (Context_make_current t this c w) = Inr ()
       \<and> Mono_current_context (snd (Context_make_current t this c w)) = Mono_current_context w
       \<and> Multi_current_context (snd (Context_make_current t this c w)) = Multi_current_context w
       \<and> objs (snd (Context_make_current t this c w)) = objs w
       \<and> (\<exists>es. trace (snd (Context_make_current t this c w)) = trace w @ es
               \<and> (\<forall>a. Hook a \<notin> set es))"
  using assms
  by (auto simp: method_defs split: impl_kind.splits option.splits if_splits)

theorem C9_make_current_idempotent_witness:
  "fst (Context_current 1 7 (Context_impl_ctor None (Multi 1))
          (snd (MultiContext_impl_ctor 1 7 None init_world))) = Inr True
   \<and> fst (Context_make_current 1 7 (Context_impl_ctor None (Multi 1))
          (snd (MultiContext_impl_ctor 1 7 None init_world))) = Inr ()
   \<and> Multi_current_context (snd (Context_make_current 1 7 (Context_impl_ctor None (Multi 1))
          (snd (MultiContext_impl_ctor 1 7 None init_world)))) =
       Multi_current_context (snd (MultiContext_impl_ctor 1 7 None init_world))
   \<and> trace (snd (Context_make_current 1 7 (Context_impl_ctor None (Multi 1))
          (snd (MultiContext_impl_ctor 1 7 None init_world)))) =
       trace (snd (MultiContext_impl_ctor 1 7 None init_world)) @ [Lock 1, Unlock 1]"
  using C9_make_current_idempotent [of 1 7 "Context_impl_ctor None (Multi 1)"
      "snd (MultiContext_impl_ctor 1 7 None init_world)"]
  by (simp add: method_defs ctor_defs)

subsection \<open>Clearing with an explicit mask\<close>

lemma get_ignores_clear_mask:
  "get T D t (this, c\<lparr>clear_mask := x\<rparr>) param w = get T D t (this, c) param w"
  by (cases T) (simp_all add: get_defs get_out_def Context_current_def)

text \<open>
  C10. \<open>clear(mask)\<close> calls \<^verbatim>\<open>glClear\<close> with the given mask and does nothing else: the
  instances, and so every stored clear mask, are unchanged, and the call does not depend
  on the stored mask. The stored mask is \<^verbatim>\<open>GL_COLOR_BUFFER_BIT\<close> after construction;
  \<open>clear()\<close> passes it to \<^verbatim>\<open>glClear\<close>; \<open>make_current\<close>, \<open>current\<close>, destruction and
  \<open>get\<close> do not depend on it.
\<close>

theorem C10_clear_mask_frame:
  "snd (Context_clear_mask D c m w) = emit (Call_glClear m) w
   \<and> fst (Context_clear_mask D c m w) = GL_CALL (drv_glClear D m, ())
   \<and> objs (snd (Context_clear_mask D c m w)) = objs w
   \<and> Context_clear_mask D (c\<lparr>clear_mask := x\<rparr>) m w = Context_clear_mask D c m w
   \<and> clear_mask (Context_impl_ctor h k) = GL_COLOR_BUFFER_BIT
   \<and> snd (Context_clear D c w) = emit (Call_glClear (clear_mask c)) w
   \<and> Context_make_current t this (c\<lparr>clear_mask := x\<rparr>) w = Context_make_current t this c w
   \<and> Context_current t this (c\<lparr>clear_mask := x\<rparr>) w = Context_current t this c w
   \<and> delete_impl t this (c\<lparr>clear_mask := x\<rparr>) w = delete_impl t this c w
   \<and> get T D t (this, c\<lparr>clear_mask := x\<rparr>) param w = get T D t (this, c) param w"
  by (simp add: Context_clear_mask_def Context_clear_def emit_def Context_impl_ctor_def
      Context_make_current_def Context_current_def delete_impl_def get_ignores_clear_mask)

theorem C10_clear_mask_frame_witness:
  "Context_clear_mask quiet_driver (Context_impl_ctor None Mono) 0x100
      (snd (MonoContext_impl_ctor 1 None init_world)) =
     (Inr (), emit (Call_glClear 0x100) (snd (MonoContext_impl_ctor 1 None init_world)))
   \<and> objs (emit (Call_glClear 0x100) (snd (MonoContext_impl_ctor 1 None init_world))) 1 =
       Some \<lparr>clear_mask = 0x4000, handle = None, kind = Mono\<rparr>"
  using C10_clear_mask_frame [of quiet_driver "Context_impl_ctor None Mono" "0x100"
      "snd (MonoContext_impl_ctor 1 None init_world)"]
  by (simp add: method_defs ctor_defs Context_clear_mask_def GL_CALL_def GL_NO_ERROR_def
      GL_COLOR_BUFFER_BIT_def quiet_driver_def)

end
